theory Spec2Isabelle
  imports Complex_Main "HOL-Library.Sublist"
begin

section \<open>Shared view vocabulary\<close>

text \<open>
  Both components are functions from their properties to a declarative view description.
  A style object is a list of key/value entries; a style property is an array of style
  objects in which a \<open>false\<close> entry (written \<open>None\<close>) contributes nothing.
\<close>

datatype style_value =
    SNum real
  | SStr string
  | STransform "(string \<times> string) list"

type_synonym style = "(string \<times> style_value) list"

type_synonym style_prop = "style option list"

datatype icon_family = Ionicons | MaterialCommunityIcons

record icon =
  icon_family :: icon_family
  icon_name :: string
  icon_size :: real
  icon_color :: string
  icon_style :: style

section \<open>Bottom tab icon (src/unnamed/part\_000)\<close>

text \<open>
  \<open>BottomTabIconProps\<close>: \<open>name\<close> is a string at run time (the union type
  \<open>'home' | 'folder' | 'chat' | 'ai'\<close> is erased), \<open>size\<close> and \<open>style\<close> are optional.
  The container style is passed through unmodified, so its type is a parameter.
\<close>

record 'st BottomTabIconProps =
  tab_name :: string
  tab_color :: string
  tab_size :: "real option"
  tab_style :: "'st option"

text \<open>The \<open>switch\<close> of \<open>getIconName\<close>, in the order of its cases, with its default.\<close>

definition getIconName :: "string \<Rightarrow> string" where
  "getIconName name =
     (if name = ''home'' then ''home''
      else if name = ''folder'' then ''folder''
      else if name = ''chat'' then ''chatbubble''
      else if name = ''ai'' then ''hardware-chip''
      else ''help-circle'')"

record 'st tab_icon_view =
  view_style :: "'st option"
  view_accessible :: bool
  view_accessibilityRole :: string
  view_accessibilityLabel :: string
  view_icon :: icon

text \<open>
  \<open>BottomTabIcon\<close>. The default size \<open>ui.icon.large\<close> comes from the theme module, which is
  not part of the sources, so it is the parameter \<open>ui_icon_large\<close>; the destructuring
  default applies when \<open>size\<close> is absent.
\<close>

definition BottomTabIcon :: "real \<Rightarrow> 'st BottomTabIconProps \<Rightarrow> 'st tab_icon_view" where
  "BottomTabIcon ui_icon_large props =
     (let name = tab_name props;
          color = tab_color props;
          size = (case tab_size props of None \<Rightarrow> ui_icon_large | Some s \<Rightarrow> s);
          style = tab_style props;
          iconName = getIconName name
      in \<lparr> view_style = style,
           view_accessible = True,
           view_accessibilityRole = ''image'',
           view_accessibilityLabel = name,
           view_icon = \<lparr> icon_family = Ionicons,
                         icon_name = iconName,
                         icon_size = size,
                         icon_color = color,
                         icon_style = [] \<rparr> \<rparr>)"

section \<open>Card interaction bar (NuggetCardInteraction.tsx)\<close>

subsection \<open>Collaborators of the component\<close>

text \<open>
  The colour tokens returned by \<open>useThemeColor\<close>; the component reads \<open>primary\<close>,
  \<open>textSecondary\<close> and \<open>divider\<close>.
\<close>

record colors =
  primary :: string
  textSecondary :: string
  divider :: string

text \<open>
  The constants of \<open>@/config/theme\<close> and of \<open>StyleSheet\<close> that the style sheet of the
  component reads. The theme module is not part of the sources: its values are a parameter.
\<close>

record theme =
  spacing_xxs :: real
  spacing_xs :: real
  spacing_s :: real
  spacing_m :: real
  spacing_l :: real
  fontSize_s :: real
  fontWeight_medium :: string
  hairlineWidth :: real

text \<open>
  The conversion of a number to a string, which the language applies in a template literal
  and the view library applies to a numeric text child. A count is a JavaScript number.
  Every integer \<open>i\<close> with \<open>|i| \<le> Number.MAX_SAFE_INTEGER = 2\<^sup>5\<^sup>3 - 1\<close> is such a number and
  is converted to its decimal digits, with a minus sign when negative. Beyond that range
  not every integer is a number, and those that are get formatted from their shortest
  round-trip digits (in exponent notation from \<open>10\<^sup>2\<^sup>1\<close>, so \<open>10\<^sup>2\<^sup>1\<close> becomes \<open>1e+21\<close>). That
  floating-point formatting is not modelled: \<open>numberToString\<close> is specified on safe integers
  only, and no property below is stated about counts outside them.
\<close>

definition MAX_SAFE_INTEGER :: int where
  "MAX_SAFE_INTEGER = 9007199254740991"

definition isSafeInteger :: "int \<Rightarrow> bool" where
  "isSafeInteger i = (- MAX_SAFE_INTEGER \<le> i \<and> i \<le> MAX_SAFE_INTEGER)"

definition digitChar :: "nat \<Rightarrow> char" where
  "digitChar d = ''0123456789'' ! (d mod 10)"

fun digits :: "nat \<Rightarrow> string" where
  "digits n = (if n < 10 then [digitChar n] else digits (n div 10) @ [digitChar (n mod 10)])"

declare digits.simps [simp del]

definition numberToString :: "int \<Rightarrow> string" where
  "numberToString i =
     (if isSafeInteger i
      then (if i < 0 then ''-'' @ digits (nat (- i)) else digits (nat i))
      else undefined)"

text \<open>
  A child of a \<open>Text\<close> element is a number or a string; the element shows the
  concatenation of its children, a number in decimal.
\<close>

datatype text_child = ChildNum int | ChildStr string

fun childText :: "text_child \<Rightarrow> string" where
  "childText (ChildNum n) = numberToString n"
| "childText (ChildStr s) = s"

record text_element =
  text_style :: style_prop
  text_children :: "text_child list"

definition textContent :: "text_element \<Rightarrow> string" where
  "textContent e = concat (map childText (text_children e))"

text \<open>
  Resolution of a style array: entries are merged from left to right, a later entry
  overriding an earlier one on the same key, and \<open>false\<close> entries are skipped.
\<close>

definition flattenStyle :: "style_prop \<Rightarrow> style" where
  "flattenStyle sp = concat (rev (List.map_filter (\<lambda>x. x) sp))"

definition styleValue :: "style_prop \<Rightarrow> string \<Rightarrow> style_value option" where
  "styleValue sp k = map_of (flattenStyle sp) k"

subsection \<open>Properties and view\<close>

text \<open>
  \<open>NuggetCardInteractionProps\<close>. The four callbacks and \<open>hideCommentButton\<close> are optional.
  A callback is an opaque function value of type \<open>'h\<close>.
\<close>

record 'h NuggetCardInteractionProps =
  helpfulCount :: int
  commentCount :: int
  isHelpful :: bool
  isSaved :: bool
  onHelpfulPress :: "'h option"
  onCommentPress :: "'h option"
  onSharePress :: "'h option"
  onSavePress :: "'h option"
  hideCommentButton :: "bool option"

text \<open>
  A \<open>TouchableOpacity\<close> with the properties the component sets on it, its icon and, for
  the two controls that have one, its \<open>Text\<close> element. \<open>accessibilityState\<close> holds the
  \<open>selected\<close> flag where the component passes one.
\<close>

record 'h touchable =
  style :: style_prop
  onPress :: "'h option"
  accessible :: bool
  accessibilityRole :: string
  accessibilityLabel :: string
  accessibilityState :: "bool option"
  icon :: icon
  label :: "text_element option"

text \<open>
  The row: the container style, the left group (the comment control, or the \<open>false\<close> that
  the conditional leaves in its place and that renders nothing, then the mark-helpful
  control) and the right group (share, save).
\<close>

record 'h interaction_row =
  container_style :: style_prop
  leftButtonsContainer_style :: style
  commentButton :: "'h touchable option"
  helpfulButton :: "'h touchable"
  rightButtonsContainer_style :: style
  shareButton :: "'h touchable"
  saveButton :: "'h touchable"

subsection \<open>The style sheet\<close>

definition styles_container :: "theme \<Rightarrow> style" where
  "styles_container th =
     [(''flexDirection'', SStr ''row''),
      (''paddingHorizontal'', SNum (spacing_m th)),
      (''paddingVertical'', SNum (spacing_s th)),
      (''borderTopWidth'', SNum (hairlineWidth th)),
      (''alignItems'', SStr ''center''),
      (''justifyContent'', SStr ''space-between'')]"

definition styles_leftButtonsContainer :: "theme \<Rightarrow> style" where
  "styles_leftButtonsContainer th =
     [(''flexDirection'', SStr ''row''), (''alignItems'', SStr ''center'')]"

definition styles_rightButtonsContainer :: "theme \<Rightarrow> style" where
  "styles_rightButtonsContainer th =
     [(''flexDirection'', SStr ''row''), (''alignItems'', SStr ''center'')]"

definition styles_actionButton :: "theme \<Rightarrow> style" where
  "styles_actionButton th =
     [(''flexDirection'', SStr ''row''),
      (''alignItems'', SStr ''center''),
      (''paddingVertical'', SNum (spacing_xs th)),
      (''marginLeft'', SNum (spacing_m th))]"

definition styles_iconWithCountButton :: "theme \<Rightarrow> style" where
  "styles_iconWithCountButton th =
     [(''flexDirection'', SStr ''row''),
      (''alignItems'', SStr ''center''),
      (''paddingVertical'', SNum (spacing_xs th))]"

definition styles_iconOnlyButton :: "theme \<Rightarrow> style" where
  "styles_iconOnlyButton th =
     [(''padding'', SNum (spacing_xs th)),
      (''justifyContent'', SStr ''center''),
      (''alignItems'', SStr ''center''),
      (''marginLeft'', SNum (spacing_l th))]"

definition styles_actionText :: "theme \<Rightarrow> style" where
  "styles_actionText th =
     [(''fontSize'', SNum (fontSize_s th)),
      (''marginLeft'', SNum (spacing_xs th)),
      (''fontWeight'', SStr (fontWeight_medium th))]"

definition styles_countText :: "theme \<Rightarrow> style" where
  "styles_countText th =
     [(''fontSize'', SNum (fontSize_s th)),
      (''marginLeft'', SNum (spacing_xxs th)),
      (''fontWeight'', SStr (fontWeight_medium th))]"

subsection \<open>The component\<close>

text \<open>
  Each control is one definition, in the order of the JSX. The parameters are the
  translation function \<open>t\<close> of \<open>useTranslation\<close>, the colours of \<open>useThemeColor\<close>, the theme
  constants and the destructured properties.
\<close>

definition commentControl ::
  "(string \<Rightarrow> string) \<Rightarrow> colors \<Rightarrow> theme \<Rightarrow> int \<Rightarrow> 'h option \<Rightarrow> 'h touchable" where
  "commentControl t cs th commentCount' onCommentPress' =
     \<lparr> style = [Some (styles_iconWithCountButton th)],
       onPress = onCommentPress',
       accessible = True,
       accessibilityRole = ''button'',
       accessibilityLabel =
         (if commentCount' > 0 then numberToString commentCount'
          else t ''nugget.interaction.noComments'')
         @ '' '' @ t ''nugget.interaction.comments'',
       accessibilityState = None,
       icon = \<lparr> icon_family = Ionicons,
                 icon_name = ''chatbubble-outline'',
                 icon_size = 20,
                 icon_color = textSecondary cs,
                 icon_style = [] \<rparr>,
       label = Some \<lparr> text_style =
                         [Some (styles_countText th), Some [(''color'', SStr (textSecondary cs))]],
                     text_children =
                         [if commentCount' > 0 then ChildNum commentCount' else ChildStr []] \<rparr> \<rparr>"

definition helpfulControl ::
  "(string \<Rightarrow> string) \<Rightarrow> colors \<Rightarrow> theme \<Rightarrow> int \<Rightarrow> bool \<Rightarrow> bool \<Rightarrow> 'h option \<Rightarrow> 'h touchable" where
  "helpfulControl t cs th helpfulCount' isHelpful' hideCommentButton' onHelpfulPress' =
     \<lparr> style = [Some (styles_actionButton th),
                if hideCommentButton' then Some [(''marginLeft'', SNum 0)] else None],
       onPress = onHelpfulPress',
       accessible = True,
       accessibilityRole = ''button'',
       accessibilityLabel =
         (if isHelpful' then t ''nugget.interaction.helpful''
          else t ''nugget.interaction.markHelpful''),
       accessibilityState = Some isHelpful',
       icon = \<lparr> icon_family = MaterialCommunityIcons,
                 icon_name = (if isHelpful' then ''thumb-up'' else ''thumb-up-outline''),
                 icon_size = 20,
                 icon_color = (if isHelpful' then primary cs else textSecondary cs),
                 icon_style = [] \<rparr>,
       label = Some \<lparr> text_style =
                         [Some (styles_actionText th),
                          Some [(''color'',
                                 SStr (if isHelpful' then primary cs else textSecondary cs))]],
                     text_children =
                         [ChildStr (t ''nugget.interaction.thatHelps''),
                          ChildStr '' '',
                          ChildStr (if helpfulCount' > 0
                                    then ''('' @ numberToString helpfulCount' @ '')''
                                    else [])] \<rparr> \<rparr>"

definition shareControl ::
  "(string \<Rightarrow> string) \<Rightarrow> colors \<Rightarrow> theme \<Rightarrow> 'h option \<Rightarrow> 'h touchable" where
  "shareControl t cs th onSharePress' =
     \<lparr> style = [Some (styles_iconOnlyButton th)],
       onPress = onSharePress',
       accessible = True,
       accessibilityRole = ''button'',
       accessibilityLabel = t ''nugget.interaction.share'',
       accessibilityState = None,
       icon = \<lparr> icon_family = Ionicons,
                 icon_name = ''paper-plane-outline'',
                 icon_size = 20,
                 icon_color = textSecondary cs,
                 icon_style = [(''transform'', STransform [(''rotate'', ''20deg'')])] \<rparr>,
       label = None \<rparr>"

definition saveControl ::
  "(string \<Rightarrow> string) \<Rightarrow> colors \<Rightarrow> theme \<Rightarrow> bool \<Rightarrow> 'h option \<Rightarrow> 'h touchable" where
  "saveControl t cs th isSaved' onSavePress' =
     \<lparr> style = [Some (styles_iconOnlyButton th)],
       onPress = onSavePress',
       accessible = True,
       accessibilityRole = ''button'',
       accessibilityLabel =
         (if isSaved' then t ''profile.nuggetSaved'' else t ''nugget.interaction.save''),
       accessibilityState = Some isSaved',
       icon = \<lparr> icon_family = Ionicons,
                 icon_name = (if isSaved' then ''bookmark'' else ''bookmark-outline''),
                 icon_size = 20,
                 icon_color = (if isSaved' then primary cs else textSecondary cs),
                 icon_style = [] \<rparr>,
       label = None \<rparr>"

text \<open>
  The destructuring default \<open>hideCommentButton = false\<close>: the value of the local
  \<open>hideCommentButton\<close> is the property when it is supplied and \<open>false\<close> when it is omitted.
\<close>

definition hidden :: "'h NuggetCardInteractionProps \<Rightarrow> bool" where
  "hidden props = (case hideCommentButton props of None \<Rightarrow> False | Some b \<Rightarrow> b)"

text \<open>\<open>NuggetCardInteraction\<close>: the destructuring, then the returned tree.\<close>

definition NuggetCardInteraction ::
  "(string \<Rightarrow> string) \<Rightarrow> colors \<Rightarrow> theme \<Rightarrow> 'h NuggetCardInteractionProps
     \<Rightarrow> 'h interaction_row" where
  "NuggetCardInteraction t cs th props =
     (let hide = hidden props
      in \<lparr> container_style =
             [Some (styles_container th), Some [(''borderTopColor'', SStr (divider cs))]],
           leftButtonsContainer_style = styles_leftButtonsContainer th,
           commentButton =
             (if \<not> hide
              then Some (commentControl t cs th (commentCount props) (onCommentPress props))
              else None),
           helpfulButton =
             helpfulControl t cs th (helpfulCount props) (isHelpful props) hide
               (onHelpfulPress props),
           rightButtonsContainer_style = styles_rightButtonsContainer th,
           shareButton = shareControl t cs th (onSharePress props),
           saveButton = saveControl t cs th (isSaved props) (onSavePress props) \<rparr>)"

text \<open>The leading margin of a control: the \<open>marginLeft\<close> entry of its resolved style.\<close>

definition marginLeft :: "'h touchable \<Rightarrow> style_value option" where
  "marginLeft c = styleValue (style c) ''marginLeft''"

subsection \<open>What a rendered control shows\<close>

text \<open>
  The text a control displays (the content of its \<open>Text\<close> element, when it has one) and
  the colour of that text.
\<close>

definition labelText :: "'h touchable \<Rightarrow> string option" where
  "labelText c = map_option textContent (label c)"

definition textColor :: "'h touchable \<Rightarrow> style_value option" where
  "textColor c =
     (case label c of None \<Rightarrow> None | Some e \<Rightarrow> styleValue (text_style e) ''color'')"

text \<open>
  What it means for a text to render a number: \<open>decimalValue\<close> reads a text as a decimal
  numeral. It accepts a non-empty sequence of the digits \<open>0\<close> to \<open>9\<close> without a leading zero
  (the numeral \<open>0\<close> itself apart) and gives the number it denotes; any other text, such as
  \<open>1e+21\<close> or the empty text, denotes no number. It is independent of \<open>numberToString\<close>, and
  two texts that denote the same number are the same text (\<open>decimalValue_unique\<close> below).
\<close>

definition digitValue :: "char \<Rightarrow> nat option" where
  "digitValue c =
     map_of [(CHR ''0'', 0), (CHR ''1'', 1), (CHR ''2'', 2), (CHR ''3'', 3), (CHR ''4'', 4),
             (CHR ''5'', 5), (CHR ''6'', 6), (CHR ''7'', 7), (CHR ''8'', 8), (CHR ''9'', 9)] c"

fun readDigits :: "nat \<Rightarrow> string \<Rightarrow> nat option" where
  "readDigits acc [] = Some acc"
| "readDigits acc (c # cs) =
     (case digitValue c of None \<Rightarrow> None | Some d \<Rightarrow> readDigits (10 * acc + d) cs)"

definition decimalValue :: "string \<Rightarrow> int option" where
  "decimalValue s =
     (if s = [] \<or> (hd s = CHR ''0'' \<and> tl s \<noteq> []) then None
      else map_option int (readDigits 0 s))"

text \<open>
  Modelled from the spec: the tap dispatch of \<open>TouchableOpacity\<close>, which belongs to the
  touch-handling library and is not among the sources. The spec states it as "Tapping
  invokes the callback if present; otherwise the tap is a no-op". The result of a tap is
  the sequence of callback invocations it performs.
\<close>

definition tap :: "'h touchable \<Rightarrow> 'h list" where
  "tap c = (case onPress c of None \<Rightarrow> [] | Some h \<Rightarrow> [h])"

subsection \<open>A concrete rendering\<close>

text \<open>
  A translation table, colours, theme constants and properties on which the component can
  be evaluated. As the translation library does, \<open>exampleT\<close> returns the key itself where
  the table has no entry.
\<close>

definition exampleT :: "string \<Rightarrow> string" where
  "exampleT k =
     (case map_of
        [(''nugget.interaction.noComments'', ''Keine''),
         (''nugget.interaction.comments'', ''Kommentare''),
         (''nugget.interaction.helpful'', ''Als hilfreich markiert''),
         (''nugget.interaction.markHelpful'', ''Als hilfreich markieren''),
         (''nugget.interaction.thatHelps'', ''Das hilft''),
         (''nugget.interaction.share'', ''Teilen''),
         (''profile.nuggetSaved'', ''Gespeichert''),
         (''nugget.interaction.save'', ''Speichern'')] k
      of None \<Rightarrow> k | Some s \<Rightarrow> s)"

definition exampleColors :: colors where
  "exampleColors =
     \<lparr> primary = ''#0A84FF'', textSecondary = ''#8E8E93'', divider = ''#C6C6C8'' \<rparr>"

definition exampleTheme :: theme where
  "exampleTheme =
     \<lparr> spacing_xxs = 2, spacing_xs = 4, spacing_s = 8, spacing_m = 16, spacing_l = 24,
       fontSize_s = 12, fontWeight_medium = ''500'', hairlineWidth = 1 \<rparr>"

datatype handler = HelpfulHandler | CommentHandler | ShareHandler | SaveHandler

definition exampleProps :: "handler NuggetCardInteractionProps" where
  "exampleProps =
     \<lparr> helpfulCount = 3, commentCount = 5, isHelpful = True, isSaved = True,
       onHelpfulPress = Some HelpfulHandler, onCommentPress = Some CommentHandler,
       onSharePress = Some ShareHandler, onSavePress = Some SaveHandler,
       hideCommentButton = None \<rparr>"

definition examplePropsNoCallbacks :: "handler NuggetCardInteractionProps" where
  "examplePropsNoCallbacks =
     exampleProps \<lparr> onHelpfulPress := None, onCommentPress := None,
                    onSharePress := None, onSavePress := None \<rparr>"

definition examplePropsLargeCounts :: "handler NuggetCardInteractionProps" where
  "examplePropsLargeCounts = exampleProps \<lparr> helpfulCount := 42, commentCount := 1203 \<rparr>"

definition examplePropsNonPositive :: "handler NuggetCardInteractionProps" where
  "examplePropsNonPositive = exampleProps \<lparr> helpfulCount := - 7, commentCount := - 2 \<rparr>"

definition tabKinds :: "string set" where
  "tabKinds = {''home'', ''folder'', ''chat'', ''ai''}"

section \<open>Properties of the tab icon\<close>

text \<open>
  C1. The tab-kind-to-glyph mapping is a total function with a fixed table: \<open>home\<close> maps to
  \<open>home\<close>, \<open>folder\<close> to \<open>folder\<close>, \<open>chat\<close> to \<open>chatbubble\<close>, \<open>ai\<close> to \<open>hardware-chip\<close>, and
  every input outside these four kinds yields the fallback glyph \<open>help-circle\<close>. Being a
  function of its argument alone, equal inputs give equal outputs.
\<close>

theorem getIconName_table:
  "getIconName ''home'' = ''home'' \<and>
   getIconName ''folder'' = ''folder'' \<and>
   getIconName ''chat'' = ''chatbubble'' \<and>
   getIconName ''ai'' = ''hardware-chip'' \<and>
   (name \<notin> tabKinds \<longrightarrow> getIconName name = ''help-circle'') \<and>
   (name = name' \<longrightarrow> getIconName name = getIconName name')"
  by (simp add: getIconName_def tabKinds_def)

theorem getIconName_table_witness:
  "''settings'' \<notin> tabKinds \<and> getIconName ''settings'' = ''help-circle'' \<and>
   getIconName ''settings'' = getIconName ''settings''"
  using getIconName_table [of "''settings''" "''settings''"]
  by (simp add: tabKinds_def)

text \<open>
  C7. The accessibility label of the rendered tab icon view is the tab-kind string that
  was passed in, whatever glyph was resolved and whatever the other properties are; in
  particular for \<open>chat\<close> and \<open>ai\<close> it differs from the glyph id.
\<close>

theorem BottomTabIcon_label:
  "view_accessibilityLabel (BottomTabIcon ui_icon_large props) = tab_name props \<and>
   view_accessibilityLabel (BottomTabIcon ui_icon_large (props\<lparr>tab_name := ''chat''\<rparr>)) = ''chat'' \<and>
   icon_name (view_icon (BottomTabIcon ui_icon_large (props\<lparr>tab_name := ''chat''\<rparr>))) = ''chatbubble''"
  by (simp add: BottomTabIcon_def getIconName_def Let_def)

section \<open>Properties of the card interaction bar\<close>

subsection \<open>Projections of the rendered row\<close>

lemma row_commentButton:
  "commentButton (NuggetCardInteraction t cs th props) =
     (if hidden props then None
      else Some (commentControl t cs th (commentCount props) (onCommentPress props)))"
  by (simp add: NuggetCardInteraction_def Let_def)

lemma row_helpfulButton:
  "helpfulButton (NuggetCardInteraction t cs th props) =
     helpfulControl t cs th (helpfulCount props) (isHelpful props) (hidden props)
       (onHelpfulPress props)"
  by (simp add: NuggetCardInteraction_def Let_def)

lemma row_shareButton:
  "shareButton (NuggetCardInteraction t cs th props) = shareControl t cs th (onSharePress props)"
  by (simp add: NuggetCardInteraction_def Let_def)

lemma row_saveButton:
  "saveButton (NuggetCardInteraction t cs th props) =
     saveControl t cs th (isSaved props) (onSavePress props)"
  by (simp add: NuggetCardInteraction_def Let_def)

lemma marginLeft_helpfulControl:
  "marginLeft (helpfulControl t cs th n b hide cb) =
     Some (SNum (if hide then 0 else spacing_m th))"
  by (simp add: marginLeft_def styleValue_def flattenStyle_def helpfulControl_def
      List.map_filter_simps styles_actionButton_def)

lemma textColor_helpfulControl:
  "textColor (helpfulControl t cs th n b hide cb) =
     Some (SStr (if b then primary cs else textSecondary cs))"
  by (simp add: textColor_def styleValue_def flattenStyle_def helpfulControl_def
      List.map_filter_simps styles_actionText_def)

lemma labelText_helpfulControl:
  "labelText (helpfulControl t cs th n b hide cb) =
     Some (t ''nugget.interaction.thatHelps'' @ '' '' @
           (if n > 0 then ''('' @ numberToString n @ '')'' else []))"
  by (simp add: labelText_def textContent_def helpfulControl_def)

lemma labelText_commentControl:
  "labelText (commentControl t cs th n cb) = Some (if n > 0 then numberToString n else [])"
  by (simp add: labelText_def textContent_def commentControl_def)

lemma accessibilityLabel_commentControl:
  "accessibilityLabel (commentControl t cs th n cb) =
     (if n > 0 then numberToString n else t ''nugget.interaction.noComments'')
     @ '' '' @ t ''nugget.interaction.comments''"
  by (simp add: commentControl_def)

lemma commentControl_nonpositive:
  "n \<le> 0 \<Longrightarrow> commentControl t cs th n cb = commentControl t cs th 0 cb"
  by (simp add: commentControl_def)

lemma helpfulControl_nonpositive:
  "n \<le> 0 \<Longrightarrow> helpfulControl t cs th n b hide cb = helpfulControl t cs th 0 b hide cb"
  by (simp add: helpfulControl_def)

lemma tap_controls:
  "tap (commentControl t cs th n cb) = (case cb of None \<Rightarrow> [] | Some h \<Rightarrow> [h])"
  "tap (helpfulControl t cs th m b hide cb) = (case cb of None \<Rightarrow> [] | Some h \<Rightarrow> [h])"
  "tap (shareControl t cs th cb) = (case cb of None \<Rightarrow> [] | Some h \<Rightarrow> [h])"
  "tap (saveControl t cs th s cb) = (case cb of None \<Rightarrow> [] | Some h \<Rightarrow> [h])"
  by (simp_all add: tap_def commentControl_def helpfulControl_def shareControl_def
      saveControl_def)

subsection \<open>The number conversion produces the decimal numeral\<close>

lemma digitValue_digitChar: "digitValue (digitChar d) = Some (d mod 10)"
proof -
  have "d mod 10 < 10" by simp
  then have "d mod 10 = 0 \<or> d mod 10 = 1 \<or> d mod 10 = 2 \<or> d mod 10 = 3 \<or> d mod 10 = 4 \<or>
      d mod 10 = 5 \<or> d mod 10 = 6 \<or> d mod 10 = 7 \<or> d mod 10 = 8 \<or> d mod 10 = 9"
    by arith
  then show ?thesis
    by (auto simp add: digitValue_def digitChar_def)
qed

lemma digitValue_SomeD: "digitValue c = Some d \<Longrightarrow> d < 10 \<and> digitChar d = c"
  by (auto simp add: digitValue_def digitChar_def split: if_splits)

lemma readDigits_snoc:
  "readDigits acc (cs @ [c]) =
     (case readDigits acc cs of None \<Rightarrow> None
      | Some v \<Rightarrow> (case digitValue c of None \<Rightarrow> None | Some d \<Rightarrow> Some (10 * v + d)))"
  by (induction cs arbitrary: acc) (auto split: option.splits)

lemma readDigits_digits: "readDigits 0 (digits n) = Some n"
proof (induction n rule: digits.induct)
  case (1 n)
  show ?case
  proof (cases "n < 10")
    case True
    then show ?thesis by (simp add: digits.simps [of n] digitValue_digitChar)
  next
    case False
    with "1" have "readDigits 0 (digits (n div 10)) = Some (n div 10)" by simp
    with False show ?thesis
      by (simp add: digits.simps [of n] readDigits_snoc digitValue_digitChar)
  qed
qed

lemma digits_nonempty: "digits n \<noteq> []"
  by (simp add: digits.simps [of n])

lemma digitChar_zero: "digitChar d = CHR ''0'' \<Longrightarrow> d mod 10 = 0"
  using digitValue_digitChar [of d] by (simp add: digitValue_def)

lemma hd_digits: "0 < n \<Longrightarrow> hd (digits n) \<noteq> CHR ''0''"
proof (induction n rule: digits.induct)
  case (1 n)
  show ?case
  proof (cases "n < 10")
    case True
    with "1.prems" show ?thesis
      using digitChar_zero [of n] by (auto simp add: digits.simps [of n])
  next
    case False
    then have "0 < n div 10" by simp
    with "1.IH" False have "hd (digits (n div 10)) \<noteq> CHR ''0''" by simp
    with False show ?thesis
      by (simp add: digits.simps [of n] digits_nonempty)
  qed
qed

lemma decimalValue_digits: "0 < n \<Longrightarrow> decimalValue (digits n) = Some (int n)"
  by (simp add: decimalValue_def digits_nonempty hd_digits readDigits_digits)

lemma decimalValue_numberToString:
  "0 < i \<Longrightarrow> i \<le> MAX_SAFE_INTEGER \<Longrightarrow> decimalValue (numberToString i) = Some i"
  by (simp add: numberToString_def isSafeInteger_def MAX_SAFE_INTEGER_def decimalValue_digits)

lemma digits_readDigits:
  "readDigits 0 s = Some n \<Longrightarrow> s \<noteq> [] \<Longrightarrow> (hd s = CHR ''0'' \<longrightarrow> tl s = []) \<Longrightarrow> digits n = s"
proof (induction s arbitrary: n rule: rev_induct)
  case Nil
  then show ?case by simp
next
  case (snoc c xs)
  from snoc.prems(1) obtain v d where
    v: "readDigits 0 xs = Some v" and d: "digitValue c = Some d" and n: "n = 10 * v + d"
    by (auto simp add: readDigits_snoc split: option.splits)
  from d have d10: "d < 10" and dc: "digitChar d = c"
    using digitValue_SomeD by blast+
  show ?case
  proof (cases "xs = []")
    case True
    with v have "v = 0" by simp
    with n d10 dc True show ?thesis by (simp add: digits.simps [of d])
  next
    case False
    with snoc.prems(3) have h: "hd xs \<noteq> CHR ''0''" by (cases xs) auto
    with snoc.IH [OF v False] have xs: "digits v = xs" by simp
    have "v \<noteq> 0"
    proof
      assume "v = 0"
      with xs have "xs = ''0''" by (simp add: digits.simps [of 0] digitChar_def)
      with h show False by simp
    qed
    with n d10 have "\<not> n < 10" "n div 10 = v" "n mod 10 = d" by auto
    with xs dc show ?thesis by (simp add: digits.simps [of n])
  qed
qed

lemma decimalValue_unique:
  "decimalValue s = Some i \<Longrightarrow> decimalValue s' = Some i \<Longrightarrow> s = s'"
proof -
  assume a: "decimalValue s = Some i" and b: "decimalValue s' = Some i"
  from a obtain n where n: "readDigits 0 s = Some n" "i = int n" "s \<noteq> []"
      "hd s = CHR ''0'' \<longrightarrow> tl s = []"
    by (auto simp add: decimalValue_def split: if_splits)
  from b obtain m where m: "readDigits 0 s' = Some m" "i = int m" "s' \<noteq> []"
      "hd s' = CHR ''0'' \<longrightarrow> tl s' = []"
    by (auto simp add: decimalValue_def split: if_splits)
  from n m have "n = m" by simp
  with digits_readDigits [OF n(1) n(3) n(4)] digits_readDigits [OF m(1) m(3) m(4)]
  show ?thesis by simp
qed

subsection \<open>Evaluation on the concrete rendering\<close>

lemma numberToString_examples:
  "numberToString 0 = ''0''" "numberToString 3 = ''3''" "numberToString 5 = ''5''"
  "numberToString 42 = ''42''" "numberToString 1203 = ''1203''"
  by (simp_all add: numberToString_def isSafeInteger_def MAX_SAFE_INTEGER_def
      digits.simps digitChar_def)

lemma decimalValue_examples:
  "decimalValue ''3'' = Some 3" "decimalValue ''5'' = Some 5"
  "decimalValue ''42'' = Some 42" "decimalValue ''1203'' = Some 1203"
  "decimalValue ''1e+21'' = None" "decimalValue ''05'' = None" "decimalValue [] = None"
  by (simp_all add: decimalValue_def digitValue_def)

lemma textChildren_commentControl:
  "map_option text_children (label (commentControl t cs th n cb)) =
     Some [if n > 0 then ChildNum n else ChildStr []]"
  by (simp add: commentControl_def)

lemma exampleT_simps:
  "exampleT ''nugget.interaction.noComments'' = ''Keine''"
  "exampleT ''nugget.interaction.comments'' = ''Kommentare''"
  "exampleT ''nugget.interaction.helpful'' = ''Als hilfreich markiert''"
  "exampleT ''nugget.interaction.markHelpful'' = ''Als hilfreich markieren''"
  "exampleT ''nugget.interaction.thatHelps'' = ''Das hilft''"
  "exampleT ''nugget.interaction.share'' = ''Teilen''"
  "exampleT ''profile.nuggetSaved'' = ''Gespeichert''"
  "exampleT ''nugget.interaction.save'' = ''Speichern''"
  by (simp_all add: exampleT_def)

subsection \<open>The claims\<close>

text \<open>
  C3. The mark-helpful control has two variants selected by \<open>isHelpful\<close>. When it is true
  the control shows the filled thumb glyph \<open>thumb-up\<close>, glyph and text are in the primary
  colour, the accessibility label is the translation of \<open>nugget.interaction.helpful\<close> and
  the accessibility state is selected. When it is false the glyph is \<open>thumb-up-outline\<close>,
  the colour is the secondary text colour, the label is the translation of
  \<open>nugget.interaction.markHelpful\<close> and the state is not selected.
\<close>

theorem helpful_variants:
  "(isHelpful props \<longrightarrow>
      (let c = helpfulButton (NuggetCardInteraction t cs th props)
       in icon_name (icon c) = ''thumb-up'' \<and>
          icon_color (icon c) = primary cs \<and>
          textColor c = Some (SStr (primary cs)) \<and>
          accessibilityLabel c = t ''nugget.interaction.helpful'' \<and>
          accessibilityState c = Some True)) \<and>
   (\<not> isHelpful props \<longrightarrow>
      (let c = helpfulButton (NuggetCardInteraction t cs th props)
       in icon_name (icon c) = ''thumb-up-outline'' \<and>
          icon_color (icon c) = textSecondary cs \<and>
          textColor c = Some (SStr (textSecondary cs)) \<and>
          accessibilityLabel c = t ''nugget.interaction.markHelpful'' \<and>
          accessibilityState c = Some False))"
  by (simp add: row_helpfulButton textColor_helpfulControl Let_def)
     (simp add: helpfulControl_def)

theorem helpful_variants_witness:
  "isHelpful exampleProps \<and>
   icon_name (icon (helpfulButton
     (NuggetCardInteraction exampleT exampleColors exampleTheme exampleProps))) = ''thumb-up'' \<and>
   accessibilityLabel (helpfulButton
     (NuggetCardInteraction exampleT exampleColors exampleTheme exampleProps))
     = ''Als hilfreich markiert'' \<and>
   \<not> isHelpful (exampleProps\<lparr>isHelpful := False\<rparr>) \<and>
   icon_name (icon (helpfulButton
     (NuggetCardInteraction exampleT exampleColors exampleTheme
        (exampleProps\<lparr>isHelpful := False\<rparr>)))) = ''thumb-up-outline'' \<and>
   accessibilityLabel (helpfulButton
     (NuggetCardInteraction exampleT exampleColors exampleTheme
        (exampleProps\<lparr>isHelpful := False\<rparr>))) = ''Als hilfreich markieren''"
  using helpful_variants [of exampleProps exampleT exampleColors exampleTheme]
    helpful_variants [of "exampleProps\<lparr>isHelpful := False\<rparr>" exampleT exampleColors exampleTheme]
  by (simp add: exampleProps_def exampleT_simps Let_def)

text \<open>
  C4. The save control has two variants selected by \<open>isSaved\<close>: the filled glyph
  \<open>bookmark\<close> in the primary colour with the translation of \<open>profile.nuggetSaved\<close> as
  accessibility label, or the glyph \<open>bookmark-outline\<close> in the secondary text colour with
  the translation of \<open>nugget.interaction.save\<close>. In both variants the selected flag of the
  accessibility state is the value of \<open>isSaved\<close>.
\<close>

theorem save_variants:
  "(isSaved props \<longrightarrow>
      (let c = saveButton (NuggetCardInteraction t cs th props)
       in icon_name (icon c) = ''bookmark'' \<and>
          icon_color (icon c) = primary cs \<and>
          accessibilityLabel c = t ''profile.nuggetSaved'')) \<and>
   (\<not> isSaved props \<longrightarrow>
      (let c = saveButton (NuggetCardInteraction t cs th props)
       in icon_name (icon c) = ''bookmark-outline'' \<and>
          icon_color (icon c) = textSecondary cs \<and>
          accessibilityLabel c = t ''nugget.interaction.save'')) \<and>
   accessibilityState (saveButton (NuggetCardInteraction t cs th props)) = Some (isSaved props)"
  by (simp add: row_saveButton saveControl_def Let_def)

theorem save_variants_witness:
  "isSaved exampleProps \<and>
   icon_name (icon (saveButton
     (NuggetCardInteraction exampleT exampleColors exampleTheme exampleProps))) = ''bookmark'' \<and>
   accessibilityLabel (saveButton
     (NuggetCardInteraction exampleT exampleColors exampleTheme exampleProps)) = ''Gespeichert'' \<and>
   \<not> isSaved (exampleProps\<lparr>isSaved := False\<rparr>) \<and>
   icon_name (icon (saveButton
     (NuggetCardInteraction exampleT exampleColors exampleTheme
        (exampleProps\<lparr>isSaved := False\<rparr>)))) = ''bookmark-outline'' \<and>
   accessibilityLabel (saveButton
     (NuggetCardInteraction exampleT exampleColors exampleTheme
        (exampleProps\<lparr>isSaved := False\<rparr>))) = ''Speichern''"
  using save_variants [of exampleProps exampleT exampleColors exampleTheme]
    save_variants [of "exampleProps\<lparr>isSaved := False\<rparr>" exampleT exampleColors exampleTheme]
  by (simp add: exampleProps_def exampleT_simps Let_def)

text \<open>
  C5. With \<open>hideCommentButton = true\<close> the row has no comment control and the resolved
  leading margin of the mark-helpful control is zero. With \<open>hideCommentButton = false\<close>
  the comment control is in the row and the mark-helpful control has the leading margin
  of its style sheet entry, \<open>spacing.m\<close>.
\<close>

theorem hideCommentButton_effect:
  "(hideCommentButton props = Some True \<longrightarrow>
      commentButton (NuggetCardInteraction t cs th props) = None \<and>
      marginLeft (helpfulButton (NuggetCardInteraction t cs th props)) = Some (SNum 0)) \<and>
   (hideCommentButton props = Some False \<longrightarrow>
      commentButton (NuggetCardInteraction t cs th props) =
        Some (commentControl t cs th (commentCount props) (onCommentPress props)) \<and>
      marginLeft (helpfulButton (NuggetCardInteraction t cs th props)) =
        Some (SNum (spacing_m th)))"
  by (simp add: row_commentButton row_helpfulButton marginLeft_helpfulControl hidden_def)

theorem hideCommentButton_effect_witness:
  "hideCommentButton (exampleProps\<lparr>hideCommentButton := Some True\<rparr>) = Some True \<and>
   commentButton (NuggetCardInteraction exampleT exampleColors exampleTheme
     (exampleProps\<lparr>hideCommentButton := Some True\<rparr>)) = None \<and>
   marginLeft (helpfulButton (NuggetCardInteraction exampleT exampleColors exampleTheme
     (exampleProps\<lparr>hideCommentButton := Some True\<rparr>))) = Some (SNum 0) \<and>
   hideCommentButton (exampleProps\<lparr>hideCommentButton := Some False\<rparr>) = Some False \<and>
   commentButton (NuggetCardInteraction exampleT exampleColors exampleTheme
     (exampleProps\<lparr>hideCommentButton := Some False\<rparr>)) \<noteq> None \<and>
   marginLeft (helpfulButton (NuggetCardInteraction exampleT exampleColors exampleTheme
     (exampleProps\<lparr>hideCommentButton := Some False\<rparr>))) = Some (SNum 16)"
  using hideCommentButton_effect
      [of "exampleProps\<lparr>hideCommentButton := Some True\<rparr>" exampleT exampleColors exampleTheme]
    hideCommentButton_effect
      [of "exampleProps\<lparr>hideCommentButton := Some False\<rparr>" exampleT exampleColors exampleTheme]
  by (simp add: exampleTheme_def)

text \<open>
  C6. For a rendered comment control: when \<open>commentCount\<close> is zero the count text is empty
  and the accessibility label is the translation of \<open>nugget.interaction.noComments\<close>, a
  space, and the translation of \<open>nugget.interaction.comments\<close>. When \<open>commentCount\<close> is
  positive the child of the count text is the number itself, and for every count up to
  \<open>Number.MAX_SAFE_INTEGER\<close> the count text is the decimal numeral of the count and the
  accessibility label is that numeral, a space, and the translation of
  \<open>nugget.interaction.comments\<close>. For the count 5 the text is \<open>5\<close>, for 1203 it is \<open>1203\<close>.
\<close>

theorem comment_count_rendering:
  "commentButton (NuggetCardInteraction t cs th props) = Some c \<Longrightarrow>
   (commentCount props = 0 \<longrightarrow>
      labelText c = Some [] \<and>
      accessibilityLabel c =
        t ''nugget.interaction.noComments'' @ '' '' @ t ''nugget.interaction.comments'') \<and>
   (0 < commentCount props \<longrightarrow>
      map_option text_children (label c) = Some [ChildNum (commentCount props)] \<and>
      (commentCount props \<le> MAX_SAFE_INTEGER \<longrightarrow>
         (\<exists>s. decimalValue s = Some (commentCount props) \<and>
              labelText c = Some s \<and>
              accessibilityLabel c = s @ '' '' @ t ''nugget.interaction.comments'')))"
proof -
  assume "commentButton (NuggetCardInteraction t cs th props) = Some c"
  then have c: "c = commentControl t cs th (commentCount props) (onCommentPress props)"
    by (simp add: row_commentButton split: if_splits)
  have zero: "commentCount props = 0 \<longrightarrow>
      labelText c = Some [] \<and>
      accessibilityLabel c =
        t ''nugget.interaction.noComments'' @ '' '' @ t ''nugget.interaction.comments''"
    by (simp add: c labelText_commentControl accessibilityLabel_commentControl)
  have child: "0 < commentCount props \<longrightarrow>
      map_option text_children (label c) = Some [ChildNum (commentCount props)]"
    by (simp add: c textChildren_commentControl)
  have numeral: "0 < commentCount props \<longrightarrow> commentCount props \<le> MAX_SAFE_INTEGER \<longrightarrow>
      (\<exists>s. decimalValue s = Some (commentCount props) \<and>
           labelText c = Some s \<and>
           accessibilityLabel c = s @ '' '' @ t ''nugget.interaction.comments'')"
  proof (intro impI)
    assume pos: "0 < commentCount props" and safe: "commentCount props \<le> MAX_SAFE_INTEGER"
    let ?s = "numberToString (commentCount props)"
    from pos safe have "decimalValue ?s = Some (commentCount props)"
      by (rule decimalValue_numberToString)
    moreover from pos have "labelText c = Some ?s"
      by (simp add: c labelText_commentControl)
    moreover from pos
    have "accessibilityLabel c = ?s @ '' '' @ t ''nugget.interaction.comments''"
      by (simp add: c accessibilityLabel_commentControl)
    ultimately show "\<exists>s. decimalValue s = Some (commentCount props) \<and>
           labelText c = Some s \<and>
           accessibilityLabel c = s @ '' '' @ t ''nugget.interaction.comments''"
      by blast
  qed
  from zero child numeral show ?thesis by blast
qed

theorem comment_count_rendering_witness:
  "(\<exists>c. commentButton (NuggetCardInteraction exampleT exampleColors exampleTheme
           (exampleProps\<lparr>commentCount := 0\<rparr>)) = Some c \<and>
        commentCount (exampleProps\<lparr>commentCount := 0\<rparr>) = 0 \<and>
        labelText c = Some [] \<and> accessibilityLabel c = ''Keine Kommentare'') \<and>
   (\<exists>c. commentButton (NuggetCardInteraction exampleT exampleColors exampleTheme exampleProps)
           = Some c \<and>
        0 < commentCount exampleProps \<and>
        commentCount exampleProps \<le> MAX_SAFE_INTEGER \<and>
        map_option text_children (label c) = Some [ChildNum 5] \<and>
        labelText c = Some ''5'' \<and> accessibilityLabel c = ''5 Kommentare'') \<and>
   (\<exists>c. commentButton
           (NuggetCardInteraction exampleT exampleColors exampleTheme examplePropsLargeCounts)
           = Some c \<and>
        0 < commentCount examplePropsLargeCounts \<and>
        commentCount examplePropsLargeCounts \<le> MAX_SAFE_INTEGER \<and>
        labelText c = Some ''1203'' \<and> accessibilityLabel c = ''1203 Kommentare'')"
proof -
  let ?p0 = "exampleProps\<lparr>commentCount := 0\<rparr>"
  let ?c0 = "commentControl exampleT exampleColors exampleTheme 0 (Some CommentHandler)"
  let ?c5 = "commentControl exampleT exampleColors exampleTheme 5 (Some CommentHandler)"
  let ?cL = "commentControl exampleT exampleColors exampleTheme 1203 (Some CommentHandler)"
  have r0: "commentButton (NuggetCardInteraction exampleT exampleColors exampleTheme ?p0)
              = Some ?c0"
    by (simp add: row_commentButton hidden_def exampleProps_def)
  have r5: "commentButton (NuggetCardInteraction exampleT exampleColors exampleTheme exampleProps)
              = Some ?c5"
    by (simp add: row_commentButton hidden_def exampleProps_def)
  have rL: "commentButton
              (NuggetCardInteraction exampleT exampleColors exampleTheme examplePropsLargeCounts)
              = Some ?cL"
    by (simp add: row_commentButton hidden_def examplePropsLargeCounts_def exampleProps_def)
  have z: "commentCount ?p0 = 0"
    by (simp add: exampleProps_def)
  have v5: "commentCount exampleProps = 5"
    by (simp add: exampleProps_def)
  have vL: "commentCount examplePropsLargeCounts = 1203"
    by (simp add: examplePropsLargeCounts_def)
  have p5: "0 < commentCount exampleProps" "commentCount exampleProps \<le> MAX_SAFE_INTEGER"
    by (simp_all add: v5 MAX_SAFE_INTEGER_def)
  have pL: "0 < commentCount examplePropsLargeCounts"
    "commentCount examplePropsLargeCounts \<le> MAX_SAFE_INTEGER"
    by (simp_all add: vL MAX_SAFE_INTEGER_def)
  from comment_count_rendering [OF r0] z
  have a: "labelText ?c0 = Some [] \<and> accessibilityLabel ?c0 = ''Keine Kommentare''"
    by (simp add: exampleT_simps)
  from comment_count_rendering [OF r5] p5
  have k5: "map_option text_children (label ?c5) = Some [ChildNum 5]"
    by (simp add: v5)
  from comment_count_rendering [OF r5] p5 obtain s where
    s: "decimalValue s = Some 5" "labelText ?c5 = Some s"
      "accessibilityLabel ?c5 = s @ '' '' @ exampleT ''nugget.interaction.comments''"
    by (auto simp add: v5)
  from s(1) have "s = ''5''"
    by (rule decimalValue_unique) (simp add: decimalValue_examples)
  with s have b: "labelText ?c5 = Some ''5'' \<and> accessibilityLabel ?c5 = ''5 Kommentare''"
    by (simp add: exampleT_simps)
  from comment_count_rendering [OF rL] pL obtain u where
    u: "decimalValue u = Some 1203" "labelText ?cL = Some u"
      "accessibilityLabel ?cL = u @ '' '' @ exampleT ''nugget.interaction.comments''"
    by (auto simp add: vL)
  from u(1) have "u = ''1203''"
    by (rule decimalValue_unique) (simp add: decimalValue_examples)
  with u have d: "labelText ?cL = Some ''1203'' \<and> accessibilityLabel ?cL = ''1203 Kommentare''"
    by (simp add: exampleT_simps)
  from r0 z a r5 p5 k5 b rL pL d show ?thesis by blast
qed

text \<open>
  C8. The text of the mark-helpful control is the translation of
  \<open>nugget.interaction.thatHelps\<close>, a space, and then a parenthesised text exactly when
  \<open>helpfulCount\<close> is positive; otherwise nothing follows the space. For every count up to
  \<open>Number.MAX_SAFE_INTEGER\<close> the parenthesised text is the decimal numeral of the count.
  For the count 3 the text ends with \<open>(3)\<close>, for 42 with \<open>(42)\<close>.
\<close>

theorem helpful_label_text:
  "(0 < helpfulCount props \<longrightarrow>
      (\<exists>s. labelText (helpfulButton (NuggetCardInteraction t cs th props)) =
             Some (t ''nugget.interaction.thatHelps'' @ '' '' @ ''('' @ s @ '')'') \<and>
           (helpfulCount props \<le> MAX_SAFE_INTEGER \<longrightarrow>
              decimalValue s = Some (helpfulCount props)))) \<and>
   (\<not> helpfulCount props > 0 \<longrightarrow>
      labelText (helpfulButton (NuggetCardInteraction t cs th props)) =
        Some (t ''nugget.interaction.thatHelps'' @ '' ''))"
proof (intro conjI impI)
  assume pos: "0 < helpfulCount props"
  let ?s = "numberToString (helpfulCount props)"
  from pos have "labelText (helpfulButton (NuggetCardInteraction t cs th props)) =
      Some (t ''nugget.interaction.thatHelps'' @ '' '' @ ''('' @ ?s @ '')'')"
    by (simp add: row_helpfulButton labelText_helpfulControl)
  moreover from pos
  have "helpfulCount props \<le> MAX_SAFE_INTEGER \<longrightarrow> decimalValue ?s = Some (helpfulCount props)"
    by (simp add: decimalValue_numberToString)
  ultimately show "\<exists>s. labelText (helpfulButton (NuggetCardInteraction t cs th props)) =
             Some (t ''nugget.interaction.thatHelps'' @ '' '' @ ''('' @ s @ '')'') \<and>
           (helpfulCount props \<le> MAX_SAFE_INTEGER \<longrightarrow>
              decimalValue s = Some (helpfulCount props))"
    by blast
next
  assume "\<not> helpfulCount props > 0"
  then show "labelText (helpfulButton (NuggetCardInteraction t cs th props)) =
        Some (t ''nugget.interaction.thatHelps'' @ '' '')"
    by (simp add: row_helpfulButton labelText_helpfulControl)
qed

theorem helpful_label_text_witness:
  "0 < helpfulCount exampleProps \<and>
   helpfulCount exampleProps \<le> MAX_SAFE_INTEGER \<and>
   labelText (helpfulButton (NuggetCardInteraction exampleT exampleColors exampleTheme
     exampleProps)) = Some ''Das hilft (3)'' \<and>
   suffix ''(3)'' ''Das hilft (3)'' \<and>
   0 < helpfulCount examplePropsLargeCounts \<and>
   helpfulCount examplePropsLargeCounts \<le> MAX_SAFE_INTEGER \<and>
   labelText (helpfulButton (NuggetCardInteraction exampleT exampleColors exampleTheme
     examplePropsLargeCounts)) = Some ''Das hilft (42)'' \<and>
   \<not> helpfulCount (exampleProps\<lparr>helpfulCount := 0\<rparr>) > 0 \<and>
   labelText (helpfulButton (NuggetCardInteraction exampleT exampleColors exampleTheme
     (exampleProps\<lparr>helpfulCount := 0\<rparr>))) = Some ''Das hilft ''"
proof -
  let ?row = "NuggetCardInteraction exampleT exampleColors exampleTheme exampleProps"
  let ?rowL = "NuggetCardInteraction exampleT exampleColors exampleTheme examplePropsLargeCounts"
  let ?p0 = "exampleProps\<lparr>helpfulCount := 0\<rparr>"
  have v3: "helpfulCount exampleProps = 3"
    by (simp add: exampleProps_def)
  have vL: "helpfulCount examplePropsLargeCounts = 42"
    by (simp add: examplePropsLargeCounts_def)
  have p3: "0 < helpfulCount exampleProps" "helpfulCount exampleProps \<le> MAX_SAFE_INTEGER"
    by (simp_all add: v3 MAX_SAFE_INTEGER_def)
  have pL: "0 < helpfulCount examplePropsLargeCounts"
    "helpfulCount examplePropsLargeCounts \<le> MAX_SAFE_INTEGER"
    by (simp_all add: vL MAX_SAFE_INTEGER_def)
  have z: "\<not> helpfulCount ?p0 > 0"
    by simp
  from helpful_label_text [of exampleProps exampleT exampleColors exampleTheme] p3
  obtain s where s: "labelText (helpfulButton ?row) =
        Some (exampleT ''nugget.interaction.thatHelps'' @ '' '' @ ''('' @ s @ '')'')"
      "decimalValue s = Some 3"
    by (auto simp add: v3)
  from s(2) have "s = ''3''"
    by (rule decimalValue_unique) (simp add: decimalValue_examples)
  with s(1) have a: "labelText (helpfulButton ?row) = Some ''Das hilft (3)''"
    by (simp add: exampleT_simps)
  from helpful_label_text [of examplePropsLargeCounts exampleT exampleColors exampleTheme] pL
  obtain u where u: "labelText (helpfulButton ?rowL) =
        Some (exampleT ''nugget.interaction.thatHelps'' @ '' '' @ ''('' @ u @ '')'')"
      "decimalValue u = Some 42"
    by (auto simp add: vL)
  from u(2) have "u = ''42''"
    by (rule decimalValue_unique) (simp add: decimalValue_examples)
  with u(1) have b: "labelText (helpfulButton ?rowL) = Some ''Das hilft (42)''"
    by (simp add: exampleT_simps)
  from helpful_label_text [of ?p0 exampleT exampleColors exampleTheme] z
  have c: "labelText (helpfulButton
      (NuggetCardInteraction exampleT exampleColors exampleTheme ?p0)) = Some ''Das hilft ''"
    by (simp add: exampleT_simps)
  have d: "suffix ''(3)'' ''Das hilft (3)''"
    by (simp add: suffix_def)
  from p3 a d pL b z c show ?thesis by blast
qed

text \<open>
  C9. \<open>hideCommentButton\<close> is optional and defaults to false: the row rendered with the
  property omitted is the row rendered with \<open>hideCommentButton = false\<close>, so the comment
  control is rendered and the mark-helpful control has its normal leading margin.
\<close>

theorem hideCommentButton_default:
  "NuggetCardInteraction t cs th (props\<lparr>hideCommentButton := None\<rparr>) =
     NuggetCardInteraction t cs th (props\<lparr>hideCommentButton := Some False\<rparr>) \<and>
   commentButton (NuggetCardInteraction t cs th (props\<lparr>hideCommentButton := None\<rparr>)) =
     Some (commentControl t cs th (commentCount props) (onCommentPress props)) \<and>
   marginLeft (helpfulButton (NuggetCardInteraction t cs th (props\<lparr>hideCommentButton := None\<rparr>))) =
     Some (SNum (spacing_m th))"
  by (simp add: NuggetCardInteraction_def hidden_def Let_def marginLeft_helpfulControl)

text \<open>
  C10. Both counters are tested with \<open>> 0\<close>: a row rendered with a \<open>commentCount\<close> that is
  zero or negative is the row rendered with \<open>commentCount = 0\<close> (a rendered comment control
  has an empty count text and the "no comments" accessibility label), and a row rendered
  with a \<open>helpfulCount\<close> that is zero or negative is the row rendered with
  \<open>helpfulCount = 0\<close> (the helpful text has no parenthetical count). The render function
  has no failing branch.
\<close>

theorem nonpositive_counts:
  "(commentCount props \<le> 0 \<longrightarrow>
      NuggetCardInteraction t cs th props =
        NuggetCardInteraction t cs th (props\<lparr>commentCount := 0\<rparr>) \<and>
      (\<forall>c. commentButton (NuggetCardInteraction t cs th props) = Some c \<longrightarrow>
         labelText c = Some [] \<and>
         accessibilityLabel c =
           t ''nugget.interaction.noComments'' @ '' '' @ t ''nugget.interaction.comments'')) \<and>
   (helpfulCount props \<le> 0 \<longrightarrow>
      NuggetCardInteraction t cs th props =
        NuggetCardInteraction t cs th (props\<lparr>helpfulCount := 0\<rparr>) \<and>
      labelText (helpfulButton (NuggetCardInteraction t cs th props)) =
        Some (t ''nugget.interaction.thatHelps'' @ '' ''))"
proof (intro conjI impI allI)
  assume n: "commentCount props \<le> 0"
  show "NuggetCardInteraction t cs th props =
          NuggetCardInteraction t cs th (props\<lparr>commentCount := 0\<rparr>)"
    by (simp add: NuggetCardInteraction_def hidden_def Let_def
        commentControl_nonpositive [OF n])
  fix c
  assume c: "commentButton (NuggetCardInteraction t cs th props) = Some c"
  from c n show "labelText c = Some []"
    by (auto simp add: row_commentButton labelText_commentControl split: if_splits)
  from c n show "accessibilityLabel c =
      t ''nugget.interaction.noComments'' @ '' '' @ t ''nugget.interaction.comments''"
    by (auto simp add: row_commentButton accessibilityLabel_commentControl split: if_splits)
next
  assume n: "helpfulCount props \<le> 0"
  show "NuggetCardInteraction t cs th props =
          NuggetCardInteraction t cs th (props\<lparr>helpfulCount := 0\<rparr>)"
    by (simp add: NuggetCardInteraction_def hidden_def Let_def
        helpfulControl_nonpositive [OF n])
  from n show "labelText (helpfulButton (NuggetCardInteraction t cs th props)) =
      Some (t ''nugget.interaction.thatHelps'' @ '' '')"
    by (simp add: row_helpfulButton labelText_helpfulControl)
qed

theorem nonpositive_counts_witness:
  "commentCount examplePropsNonPositive \<le> 0 \<and>
   helpfulCount examplePropsNonPositive \<le> 0 \<and>
   NuggetCardInteraction exampleT exampleColors exampleTheme examplePropsNonPositive =
     NuggetCardInteraction exampleT exampleColors exampleTheme
       (examplePropsNonPositive\<lparr>commentCount := 0\<rparr>) \<and>
   NuggetCardInteraction exampleT exampleColors exampleTheme examplePropsNonPositive =
     NuggetCardInteraction exampleT exampleColors exampleTheme
       (examplePropsNonPositive\<lparr>helpfulCount := 0\<rparr>) \<and>
   (\<exists>c. commentButton
           (NuggetCardInteraction exampleT exampleColors exampleTheme examplePropsNonPositive)
           = Some c \<and>
        labelText c = Some [] \<and> accessibilityLabel c = ''Keine Kommentare'') \<and>
   labelText (helpfulButton
     (NuggetCardInteraction exampleT exampleColors exampleTheme examplePropsNonPositive))
     = Some ''Das hilft ''"
proof -
  let ?row = "NuggetCardInteraction exampleT exampleColors exampleTheme examplePropsNonPositive"
  let ?c = "commentControl exampleT exampleColors exampleTheme (- 2) (Some CommentHandler)"
  have nc: "commentCount examplePropsNonPositive \<le> 0"
    and nh: "helpfulCount examplePropsNonPositive \<le> 0"
    by (simp_all add: examplePropsNonPositive_def exampleProps_def)
  have r: "commentButton ?row = Some ?c"
    by (simp add: row_commentButton hidden_def examplePropsNonPositive_def exampleProps_def)
  note th = nonpositive_counts
    [of examplePropsNonPositive exampleT exampleColors exampleTheme]
  from th nc r have "labelText ?c = Some [] \<and>
      accessibilityLabel ?c = exampleT ''nugget.interaction.noComments'' @ '' '' @
        exampleT ''nugget.interaction.comments''"
    by blast
  then have a: "labelText ?c = Some [] \<and> accessibilityLabel ?c = ''Keine Kommentare''"
    by (simp add: exampleT_simps)
  from th nh have "labelText (helpfulButton ?row) =
      Some (exampleT ''nugget.interaction.thatHelps'' @ '' '')"
    by blast
  then have b: "labelText (helpfulButton ?row) = Some ''Das hilft ''"
    by (simp add: exampleT_simps)
  from th nc have e1: "?row = NuggetCardInteraction exampleT exampleColors exampleTheme
       (examplePropsNonPositive\<lparr>commentCount := 0\<rparr>)"
    by blast
  from th nh have e2: "?row = NuggetCardInteraction exampleT exampleColors exampleTheme
       (examplePropsNonPositive\<lparr>helpfulCount := 0\<rparr>)"
    by blast
  from nc nh e1 e2 r a b show ?thesis by blast
qed

text \<open>
  C2. For each of the four controls, the handler installed on the control is the
  component's own callback property for it. Hence a tap on a rendered control performs
  exactly one invocation, of that callback, when the callback is supplied, and performs
  no invocation when it is omitted. Whether a control is rendered does not depend on the
  callbacks: mark-helpful, share and save are always in the row, and the comment control
  is missing only when \<open>hideCommentButton\<close> is true.
\<close>

theorem tap_invokes_callback:
  "(onHelpfulPress props = Some hh \<longrightarrow>
      tap (helpfulButton (NuggetCardInteraction t cs th props)) = [hh]) \<and>
   (onHelpfulPress props = None \<longrightarrow>
      tap (helpfulButton (NuggetCardInteraction t cs th props)) = []) \<and>
   (onSharePress props = Some hs \<longrightarrow>
      tap (shareButton (NuggetCardInteraction t cs th props)) = [hs]) \<and>
   (onSharePress props = None \<longrightarrow>
      tap (shareButton (NuggetCardInteraction t cs th props)) = []) \<and>
   (onSavePress props = Some hv \<longrightarrow>
      tap (saveButton (NuggetCardInteraction t cs th props)) = [hv]) \<and>
   (onSavePress props = None \<longrightarrow>
      tap (saveButton (NuggetCardInteraction t cs th props)) = []) \<and>
   (commentButton (NuggetCardInteraction t cs th props) = Some c \<longrightarrow>
      (onCommentPress props = Some hc \<longrightarrow> tap c = [hc]) \<and>
      (onCommentPress props = None \<longrightarrow> tap c = [])) \<and>
   (commentButton (NuggetCardInteraction t cs th props) = None) =
      (hideCommentButton props = Some True)"
proof -
  have present: "(commentButton (NuggetCardInteraction t cs th props) = None) =
      (hideCommentButton props = Some True)"
    by (simp add: row_commentButton hidden_def split: option.splits)
  have comment: "commentButton (NuggetCardInteraction t cs th props) = Some c \<longrightarrow>
      (onCommentPress props = Some hc \<longrightarrow> tap c = [hc]) \<and>
      (onCommentPress props = None \<longrightarrow> tap c = [])"
    by (auto simp add: row_commentButton tap_controls split: if_splits)
  show ?thesis
    using present comment
    by (simp add: row_helpfulButton row_shareButton row_saveButton tap_controls)
qed

theorem tap_invokes_callback_witness:
  "tap (helpfulButton (NuggetCardInteraction exampleT exampleColors exampleTheme exampleProps))
     = [HelpfulHandler] \<and>
   tap (shareButton (NuggetCardInteraction exampleT exampleColors exampleTheme exampleProps))
     = [ShareHandler] \<and>
   tap (saveButton (NuggetCardInteraction exampleT exampleColors exampleTheme exampleProps))
     = [SaveHandler] \<and>
   (\<exists>c. commentButton (NuggetCardInteraction exampleT exampleColors exampleTheme exampleProps)
           = Some c \<and> tap c = [CommentHandler]) \<and>
   tap (helpfulButton
     (NuggetCardInteraction exampleT exampleColors exampleTheme examplePropsNoCallbacks)) = [] \<and>
   tap (shareButton
     (NuggetCardInteraction exampleT exampleColors exampleTheme examplePropsNoCallbacks)) = [] \<and>
   tap (saveButton
     (NuggetCardInteraction exampleT exampleColors exampleTheme examplePropsNoCallbacks)) = [] \<and>
   (\<exists>c. commentButton
           (NuggetCardInteraction exampleT exampleColors exampleTheme examplePropsNoCallbacks)
           = Some c \<and> tap c = [])"
proof -
  let ?row = "NuggetCardInteraction exampleT exampleColors exampleTheme exampleProps"
  let ?row' = "NuggetCardInteraction exampleT exampleColors exampleTheme examplePropsNoCallbacks"
  let ?c = "commentControl exampleT exampleColors exampleTheme 5 (Some CommentHandler)"
  let ?c' = "commentControl exampleT exampleColors exampleTheme 5 (None :: handler option)"
  have r: "commentButton ?row = Some ?c"
    by (simp add: row_commentButton hidden_def exampleProps_def)
  have r': "commentButton ?row' = Some ?c'"
    by (simp add: row_commentButton hidden_def examplePropsNoCallbacks_def exampleProps_def)
  have s: "onHelpfulPress exampleProps = Some HelpfulHandler"
    "onSharePress exampleProps = Some ShareHandler"
    "onSavePress exampleProps = Some SaveHandler"
    "onCommentPress exampleProps = Some CommentHandler"
    by (simp_all add: exampleProps_def)
  have n: "onHelpfulPress examplePropsNoCallbacks = None"
    "onSharePress examplePropsNoCallbacks = None"
    "onSavePress examplePropsNoCallbacks = None"
    "onCommentPress examplePropsNoCallbacks = None"
    by (simp_all add: examplePropsNoCallbacks_def)
  from tap_invokes_callback
    [of exampleProps HelpfulHandler exampleT exampleColors exampleTheme
        ShareHandler SaveHandler ?c CommentHandler] s r
  have a: "tap (helpfulButton ?row) = [HelpfulHandler] \<and> tap (shareButton ?row) = [ShareHandler]
       \<and> tap (saveButton ?row) = [SaveHandler] \<and> tap ?c = [CommentHandler]"
    by simp
  from tap_invokes_callback
    [of examplePropsNoCallbacks HelpfulHandler exampleT exampleColors exampleTheme
        ShareHandler SaveHandler ?c' CommentHandler] n r'
  have b: "tap (helpfulButton ?row') = [] \<and> tap (shareButton ?row') = []
       \<and> tap (saveButton ?row') = [] \<and> tap ?c' = []"
    by simp
  from a b r r' show ?thesis by blast
qed

end
